theory Spec2Isabelle
  imports Complex_Main
begin

section \<open>Iterative magnitude pruning: the data model\<close>

text \<open>
  The development embeds \<^verbatim>\<open>src/iterative_pruning.py\<close>: the function
  \<^verbatim>\<open>prune_iteratively\<close> (the loop over the pruning rounds 0..30) and the function
  \<^verbatim>\<open>test\<close> (evaluation).

  A tensor is the sequence of its elements in flattened order, over the reals; its shape is
  its number of elements. The model is the list \<^verbatim>\<open>model.named_parameters()\<close> in
  iteration order. Floating point (rounding of arithmetic, NaN, infinities) and the placement
  of tensors on devices, \<^verbatim>\<open>nn.DataParallel\<close> included, are not modelled.
\<close>

type_synonym tensor = "real list"

type_synonym named_parameters = "(string \<times> tensor) list"

datatype error =
    ValueError string
  | ZeroDivisionError
  | IndexError
  | RuntimeError
  | FileNotFoundError
  | UnboundLocalError
  | LoadError

datatype opt_kind = SGD | Adam

text \<open>
  An optimizer: the hyperparameters of its single parameter group, and its internal state
  (momentum buffers, step counts), which is opaque here.
\<close>

record 'o optimizer =
  opt_kind :: opt_kind
  lr :: real
  momentum :: "real option"
  weight_decay :: real
  opt_state :: 'o

text \<open>The dictionary that \<^verbatim>\<open>torch.save\<close> writes at line 121.\<close>

record 'o checkpoint =
  ck_epoch :: nat
  model_state_dict :: named_parameters
  optimizer_state_dict :: "'o optimizer"

text \<open>
  The two history lists are Python list objects, and what is appended to them at lines
  128 and 129 is a reference: a value is a float or a reference to one of the two lists.
\<close>

datatype list_name = TestAccuracys | TestLosses

datatype pyval = PyFloat real | PyListRef list_name

text \<open>
  The calls the function makes to its collaborators, in the order they happen:
  \<^verbatim>\<open>torch.load\<close> (line 59), \<^verbatim>\<open>load_weights\<close> (line 84), one training step
  (lines 109--112), \<^verbatim>\<open>torch.save\<close> (line 121) and \<^verbatim>\<open>test\<close> (line 126). Each
  carries the pruning round; a checkpoint event carries the round and the epoch of the file
  name, a training step the epoch and the batch number.
\<close>

datatype event =
    LoadCheckpoint nat nat
  | LoadWeights nat
  | TrainStep nat nat nat
  | SaveCheckpoint nat nat
  | Test nat

text \<open>
  The local variables of \<^verbatim>\<open>prune_iteratively\<close> that live across statements, the
  checkpoint directory, and the state of the random number generator.
  \<open>optimizer\<close>, \<open>masks\<close> and \<open>last_epoch\<close> are \<open>None\<close> while the Python variable is unbound.
\<close>

record ('o, 'g) state =
  model :: named_parameters
  optimizer :: "'o optimizer option"
  masks :: "tensor list option"
  last_epoch :: "nat option"
  files :: "nat \<times> nat \<Rightarrow> 'o checkpoint option"
  rng :: 'g
  test_accuracys :: "pyval list"
  test_losses :: "pyval list"
  calls :: "event list"

text \<open>
  The arguments of \<^verbatim>\<open>prune_iteratively\<close>. A batch is a pair of inputs (opaque) and
  labels. \<open>random_arg\<close> is the argument \<^verbatim>\<open>random\<close>, a string of the command line.
\<close>

record 'x config =
  dataloader_train :: "('x \<times> nat list) list"
  dataloader_test :: "('x \<times> nat list) list"
  architecture :: string
  optimizer_type :: string
  init_path :: string
  random_arg :: string
  is_equal_classes :: bool

text \<open>
  What the file imports from modules that are not part of the sources
  (\<^verbatim>\<open>utils\<close>, \<^verbatim>\<open>model\<close>) or from PyTorch, taken as parameters:
  \<^item> \<open>get_weight_fractions\<close>: the table of percentiles, one per round;
  \<^item> \<open>permute_masks\<close>: the mask permuter, which draws from the random number generator;
  \<^item> \<open>load_weights\<close>: loads the initialization snapshot into the model;
  \<^item> \<open>optim_init\<close>: the internal state of a newly constructed optimizer;
  \<^item> \<open>train_step\<close>: forward pass, loss, backward pass and \<^verbatim>\<open>optimizer.step()\<close> on
    one batch (lines 109--112), giving the new parameter values and optimizer state;
  \<^item> \<open>forward\<close>: the model's outputs on a batch of inputs, one row of class scores per
    sample;
  \<^item> \<open>criterion\<close>: \<^verbatim>\<open>nn.CrossEntropyLoss()\<close>.
\<close>

record ('x, 'o, 'g) externals =
  get_weight_fractions :: "real list"
  permute_masks :: "'g \<Rightarrow> tensor list \<Rightarrow> tensor list \<times> 'g"
  load_weights :: "named_parameters \<Rightarrow> string \<Rightarrow> bool \<Rightarrow> error + named_parameters"
  optim_init :: "named_parameters \<Rightarrow> 'o"
  train_step :: "'o optimizer \<Rightarrow> named_parameters \<Rightarrow> 'x \<times> nat list \<Rightarrow> named_parameters \<times> 'o"
  forward :: "named_parameters \<Rightarrow> 'x \<Rightarrow> real list list"
  criterion :: "real list list \<Rightarrow> nat list \<Rightarrow> real"

section \<open>The mask builder (lines 62--81)\<close>

text \<open>\<^verbatim>\<open>sub in s\<close> on strings.\<close>

fun contains :: "string \<Rightarrow> string \<Rightarrow> bool" where
  "contains sub [] = (sub = [])"
| "contains sub (c # cs) = (take (length sub) (c # cs) = sub \<or> contains sub cs)"

definition is_weight :: "string \<Rightarrow> bool" where
  "is_weight name = contains ''weight'' name"

text \<open>Lines 63--67: the loop that concatenates the flattened weights.\<close>

fun flat_model_weights :: "named_parameters \<Rightarrow> real list \<Rightarrow> real list" where
  "flat_model_weights [] flat = flat"
| "flat_model_weights ((name, params) # rest) flat =
     (if is_weight name then flat_model_weights rest (flat @ params)
      else flat_model_weights rest flat)"

text \<open>
  \<^verbatim>\<open>np.percentile(a, q)\<close> with NumPy's default linear interpolation: the value at the
  virtual index \<open>q / 100 * (n - 1)\<close> of the sorted array. A \<open>q\<close> outside \<open>[0, 100]\<close>
  raises \<^verbatim>\<open>ValueError\<close>. On an empty array NumPy returns NaN; all masks are then empty,
  \<^verbatim>\<open>total\<close> is 0 and line 81 raises \<^verbatim>\<open>ZeroDivisionError\<close>, which is the failure
  reported here.
\<close>

definition np_percentile :: "real list \<Rightarrow> real \<Rightarrow> error + real" where
  "np_percentile a q =
     (if q < 0 \<or> 100 < q then Inl (ValueError ''Percentiles must be in the range [0, 100]'')
      else if a = [] then Inl ZeroDivisionError
      else
        (let srt = sort a;
             n = length a;
             virtual = q / 100 * real (n - 1);
             lo = nat \<lfloor>virtual\<rfloor>;
             hi = min (lo + 1) (n - 1);
             g = virtual - real lo
         in Inr (srt ! lo + g * (srt ! hi - srt ! lo))))"

text \<open>Lines 74--75: \<^verbatim>\<open>params.data.abs().clone().gt(threshold).float()\<close>.\<close>

definition tensor_mask :: "real \<Rightarrow> tensor \<Rightarrow> tensor" where
  "tensor_mask threshold params = map (\<lambda>w. if \<bar>w\<bar> > threshold then 1 else 0) params"

text \<open>\<^verbatim>\<open>mask.numel() - mask.nonzero().size(0)\<close>\<close>

definition count_zeros :: "tensor \<Rightarrow> nat" where
  "count_zeros msk = length msk - length (filter (\<lambda>m. m \<noteq> 0) msk)"

text \<open>
  Lines 72--80: the loop that builds the masks. Its variables are \<^verbatim>\<open>masks\<close>,
  \<^verbatim>\<open>zeros\<close>, \<^verbatim>\<open>total\<close> (here \<open>tot\<close>) and the random number generator. The call of
  \<^verbatim>\<open>permute_masks\<close> stands inside the loop, under \<^verbatim>\<open>if "weight" in name\<close>.
\<close>

fun mask_loop ::
  "('x, 'o, 'g) externals \<Rightarrow> string \<Rightarrow> real \<Rightarrow> named_parameters \<Rightarrow>
   tensor list \<times> nat \<times> nat \<times> 'g \<Rightarrow> tensor list \<times> nat \<times> nat \<times> 'g" where
  "mask_loop X rnd threshold [] acc = acc"
| "mask_loop X rnd threshold ((name, params) # rest) (ms, zeros, tot, g) =
     (if is_weight name then
        (let msk = tensor_mask threshold params;
             zeros' = zeros + count_zeros msk;
             tot' = tot + length msk;
             ms' = ms @ [msk]
         in if rnd \<noteq> ''false''
            then (case permute_masks X g ms' of
                    (ms'', g') \<Rightarrow> mask_loop X rnd threshold rest (ms'', zeros', tot', g'))
            else mask_loop X rnd threshold rest (ms', zeros', tot', g))
      else mask_loop X rnd threshold rest (ms, zeros, tot, g))"

text \<open>Lines 62--81 as a whole; the division of line 81 fails when \<^verbatim>\<open>total\<close> is 0.\<close>

definition build_masks ::
  "('x, 'o, 'g) externals \<Rightarrow> string \<Rightarrow> nat \<Rightarrow> ('o, 'g) state \<Rightarrow>
   error \<times> ('o, 'g) state + ('o, 'g) state" where
  "build_masks X rnd pruning_iter s =
     (let flat = flat_model_weights (model s) [] in
      if length (get_weight_fractions X) \<le> pruning_iter then Inl (IndexError, s)
      else
        (case np_percentile (map abs flat) (get_weight_fractions X ! pruning_iter) of
           Inl e \<Rightarrow> Inl (e, s)
         | Inr threshold \<Rightarrow>
             (case mask_loop X rnd threshold (model s) ([], 0, 0, rng s) of
                (ms, zeros, tot, g) \<Rightarrow>
                  (if tot = 0 then Inl (ZeroDivisionError, s\<lparr>masks := Some ms, rng := g\<rparr>)
                   else Inr (s\<lparr>masks := Some ms, rng := g\<rparr>)))))"

section \<open>Sequencing steps that may raise\<close>

text \<open>
  A step gives the new state, or the exception raised together with the state reached.
  \<open>and_then\<close> runs the next step unless the first one raised.
\<close>

definition and_then :: "'e + 's \<Rightarrow> ('s \<Rightarrow> 'e + 't) \<Rightarrow> 'e + 't" where
  "and_then r f = (case r of Inl e \<Rightarrow> Inl e | Inr s \<Rightarrow> f s)"

section \<open>Applying the masks (lines 102--107 and 115--120)\<close>

text \<open>
  \<^verbatim>\<open>params.data.mul_(masks[layer_index])\<close> for every parameter whose name contains
  \<^verbatim>\<open>weight\<close>. \<^verbatim>\<open>masks[layer_index]\<close> raises \<^verbatim>\<open>IndexError\<close> past the end of the
  list, and \<^verbatim>\<open>mul_\<close> raises \<^verbatim>\<open>RuntimeError\<close> on a mask of another shape
  (broadcasting a mask of another shape is not modelled).
\<close>

fun apply_masks :: "tensor list \<Rightarrow> nat \<Rightarrow> named_parameters \<Rightarrow> error + named_parameters" where
  "apply_masks ms layer_index [] = Inr []"
| "apply_masks ms layer_index ((name, params) # rest) =
     (if is_weight name then
        (if length ms \<le> layer_index then Inl IndexError
         else if length (ms ! layer_index) \<noteq> length params then Inl RuntimeError
         else and_then (apply_masks ms (layer_index + 1) rest)
                (\<lambda>rest'. Inr ((name, map2 (*) params (ms ! layer_index)) # rest')))
      else and_then (apply_masks ms layer_index rest)
             (\<lambda>rest'. Inr ((name, params) # rest')))"

definition mask_model :: "('o, 'g) state \<Rightarrow> error \<times> ('o, 'g) state + ('o, 'g) state" where
  "mask_model s =
     (case masks s of
        None \<Rightarrow> Inl (UnboundLocalError, s)
      | Some ms \<Rightarrow>
          (case apply_masks ms 0 (model s) of
             Inl e \<Rightarrow> Inl (e, s)
           | Inr ps \<Rightarrow> Inr (s\<lparr>model := ps\<rparr>)))"

section \<open>The optimizer and the checkpoints\<close>

text \<open>Lines 51--56.\<close>

definition new_optimizer ::
  "('x, 'o, 'g) externals \<Rightarrow> string \<Rightarrow> named_parameters \<Rightarrow> error + 'o optimizer" where
  "new_optimizer X opt_type ps =
     (if opt_type = ''sgd'' then
        Inr \<lparr>opt_kind = SGD, lr = 1 / 10, momentum = Some (9 / 10), weight_decay = 1 / 10000,
             opt_state = optim_init X ps\<rparr>
      else if opt_type = ''adam'' then
        Inr \<lparr>opt_kind = Adam, lr = 3 / 10000, momentum = None, weight_decay = 1 / 10000,
             opt_state = optim_init X ps\<rparr>
      else Inl (ValueError (opt_type @ '' optimizer not supported'')))"

text \<open>
  \<^verbatim>\<open>model.load_state_dict\<close> (strict): the names and shapes of the stored parameters
  must be those of the model.
\<close>

definition shapes :: "named_parameters \<Rightarrow> (string \<times> nat) list" where
  "shapes ps = map (\<lambda>p. (fst p, length (snd p))) ps"

definition load_state_dict :: "named_parameters \<Rightarrow> named_parameters \<Rightarrow> error + named_parameters" where
  "load_state_dict m state_dict =
     (if shapes state_dict = shapes m then Inr state_dict else Inl RuntimeError)"

text \<open>
  Lines 59--60: the checkpoint of the previous round at \<^verbatim>\<open>last_epoch\<close> is read, and
  of its three entries only \<^verbatim>\<open>model_state_dict\<close> is used.
\<close>

definition load_checkpoint ::
  "nat \<Rightarrow> ('o, 'g) state \<Rightarrow> error \<times> ('o, 'g) state + ('o, 'g) state" where
  "load_checkpoint pruning_iter s =
     (case last_epoch s of
        None \<Rightarrow> Inl (UnboundLocalError, s)
      | Some e \<Rightarrow>
          (case files s (pruning_iter - 1, e) of
             None \<Rightarrow> Inl (FileNotFoundError, s)
           | Some cpt \<Rightarrow>
               (let s1 = s\<lparr>calls := calls s @ [LoadCheckpoint (pruning_iter - 1) e]\<rparr> in
                case load_state_dict (model s1) (model_state_dict cpt) of
                  Inl err \<Rightarrow> Inl (err, s1)
                | Inr ps \<Rightarrow> Inr (s1\<lparr>model := ps\<rparr>))))"

text \<open>Line 121.\<close>

definition save_checkpoint ::
  "nat \<Rightarrow> nat \<Rightarrow> ('o, 'g) state \<Rightarrow> error \<times> ('o, 'g) state + ('o, 'g) state" where
  "save_checkpoint pruning_iter epoch s =
     (case optimizer s of
        None \<Rightarrow> Inl (UnboundLocalError, s)
      | Some opt \<Rightarrow>
          Inr (s\<lparr>files := (files s)((pruning_iter, epoch) \<mapsto>
                    \<lparr>ck_epoch = epoch, model_state_dict = model s, optimizer_state_dict = opt\<rparr>),
                 calls := calls s @ [SaveCheckpoint pruning_iter epoch]\<rparr>))"

text \<open>Lines 83--84.\<close>

definition rewind ::
  "('x, 'o, 'g) externals \<Rightarrow> 'x config \<Rightarrow> nat \<Rightarrow> ('o, 'g) state \<Rightarrow>
   error \<times> ('o, 'g) state + ('o, 'g) state" where
  "rewind X cfg pruning_iter s =
     (let s1 = s\<lparr>calls := calls s @ [LoadWeights pruning_iter]\<rparr> in
      case load_weights X (model s) (init_path cfg) (is_equal_classes cfg) of
        Inl e \<Rightarrow> Inl (e, s1)
      | Inr ps \<Rightarrow> Inr (s1\<lparr>model := ps\<rparr>))"

section \<open>Training (lines 90--123)\<close>

text \<open>
  One batch, lines 97--112: \<^verbatim>\<open>optimizer.zero_grad()\<close>, the masks when the round is
  not round 0, then the training step. Nothing follows \<^verbatim>\<open>optimizer.step()\<close>.
\<close>

definition train_batch ::
  "('x, 'o, 'g) externals \<Rightarrow> nat \<Rightarrow> nat \<Rightarrow> nat \<Rightarrow> 'x \<times> nat list \<Rightarrow> ('o, 'g) state \<Rightarrow>
   error \<times> ('o, 'g) state + ('o, 'g) state" where
  "train_batch X pruning_iter epoch batch_num data s =
     (case optimizer s of
        None \<Rightarrow> Inl (UnboundLocalError, s)
      | Some opt \<Rightarrow>
          and_then (if pruning_iter \<noteq> 0 then mask_model s else Inr s)
            (\<lambda>s1. case train_step X opt (model s1) data of
                    (ps, st) \<Rightarrow>
                      Inr (s1\<lparr>model := ps,
                              optimizer := Some (opt\<lparr>opt_state := st\<rparr>),
                              calls := calls s1 @ [TrainStep pruning_iter epoch batch_num]\<rparr>)))"

fun train_batches ::
  "('x, 'o, 'g) externals \<Rightarrow> nat \<Rightarrow> nat \<Rightarrow> (nat \<times> ('x \<times> nat list)) list \<Rightarrow> ('o, 'g) state \<Rightarrow>
   error \<times> ('o, 'g) state + ('o, 'g) state" where
  "train_batches X pruning_iter epoch [] s = Inr s"
| "train_batches X pruning_iter epoch ((batch_num, data) # rest) s =
     and_then (train_batch X pruning_iter epoch batch_num data s)
       (train_batches X pruning_iter epoch rest)"

text \<open>Line 93--94.\<close>

definition anneal :: "nat \<Rightarrow> nat list \<Rightarrow> ('o, 'g) state \<Rightarrow> ('o, 'g) state" where
  "anneal epoch lr_anneal_epochs s =
     (if epoch \<in> set lr_anneal_epochs
      then s\<lparr>optimizer := map_option (\<lambda>opt. opt\<lparr>lr := lr opt / 10\<rparr>) (optimizer s)\<rparr>
      else s)"

text \<open>One epoch, lines 92--121.\<close>

definition run_epoch ::
  "('x, 'o, 'g) externals \<Rightarrow> 'x config \<Rightarrow> nat \<Rightarrow> nat list \<Rightarrow> nat \<Rightarrow> nat \<Rightarrow> ('o, 'g) state \<Rightarrow>
   error \<times> ('o, 'g) state + ('o, 'g) state" where
  "run_epoch X cfg num_epochs lr_anneal_epochs pruning_iter epoch s =
     and_then
       (train_batches X pruning_iter epoch (enumerate 0 (dataloader_train cfg))
          (anneal epoch lr_anneal_epochs (s\<lparr>last_epoch := Some epoch\<rparr>)))
       (\<lambda>s1. if epoch = num_epochs
             then and_then (if pruning_iter \<noteq> 0 then mask_model s1 else Inr s1)
                    (save_checkpoint pruning_iter epoch)
             else Inr s1)"

fun run_epochs ::
  "('x, 'o, 'g) externals \<Rightarrow> 'x config \<Rightarrow> nat \<Rightarrow> nat list \<Rightarrow> nat \<Rightarrow> nat list \<Rightarrow> ('o, 'g) state \<Rightarrow>
   error \<times> ('o, 'g) state + ('o, 'g) state" where
  "run_epochs X cfg num_epochs lr_anneal_epochs pruning_iter [] s = Inr s"
| "run_epochs X cfg num_epochs lr_anneal_epochs pruning_iter (epoch # rest) s =
     and_then (run_epoch X cfg num_epochs lr_anneal_epochs pruning_iter epoch s)
       (run_epochs X cfg num_epochs lr_anneal_epochs pruning_iter rest)"

section \<open>Evaluation (lines 135--165)\<close>

text \<open>
  \<^verbatim>\<open>torch.max(outputs.data, 1)\<close>: the index of a largest score of a row (the first one
  here).
\<close>

fun argmax :: "real list \<Rightarrow> nat" where
  "argmax [] = 0"
| "argmax (x # xs) = (if list_all (\<lambda>y. y \<le> x) xs then 0 else Suc (argmax xs))"

text \<open>\<^verbatim>\<open>(predicted == labels).sum().item()\<close>\<close>

definition count_correct :: "nat list \<Rightarrow> nat list \<Rightarrow> nat" where
  "count_correct predicted labels = length (filter (\<lambda>pl. fst pl = snd pl) (zip predicted labels))"

text \<open>
  Python's \<^verbatim>\<open>round(x, ndigits)\<close>, on the reals: the nearest multiple of
  \<open>10 ^ - ndigits\<close>, a tie going to the even one.
\<close>

definition py_round :: "real \<Rightarrow> nat \<Rightarrow> real" where
  "py_round x ndigits =
     (let y = x * 10 ^ ndigits;
          f = \<lfloor>y\<rfloor>;
          d = y - of_int f
      in of_int (if d < 1 / 2 then f else if 1 / 2 < d then f + 1
                 else if even f then f else f + 1) / 10 ^ ndigits)"

text \<open>
  The loop of lines 155--162, under \<^verbatim>\<open>torch.no_grad()\<close>; its variables are
  \<^verbatim>\<open>correct\<close>, \<^verbatim>\<open>total\<close> (here \<open>tot\<close>) and \<^verbatim>\<open>total_loss\<close>. The model is read, never
  assigned.
\<close>

fun test_loop ::
  "('x, 'o, 'g) externals \<Rightarrow> named_parameters \<Rightarrow> ('x \<times> nat list) list \<Rightarrow>
   nat \<times> nat \<times> real \<Rightarrow> nat \<times> nat \<times> real" where
  "test_loop X m [] acc = acc"
| "test_loop X m ((inputs, labels) # rest) (correct, tot, total_loss) =
     (let outputs = forward X m inputs;
          loss = criterion X outputs labels;
          predicted = map argmax outputs
      in test_loop X m rest
           (correct + count_correct predicted labels, tot + length labels, total_loss + loss))"

text \<open>Lines 163--165; both divisions raise when \<^verbatim>\<open>total\<close> is 0.\<close>

definition test ::
  "('x, 'o, 'g) externals \<Rightarrow> named_parameters \<Rightarrow> ('x \<times> nat list) list \<Rightarrow> error + real \<times> real" where
  "test X m dataloader =
     (case test_loop X m dataloader (0, 0, 0) of
        (correct, tot, total_loss) \<Rightarrow>
          if tot = 0 then Inl ZeroDivisionError
          else Inr (py_round (total_loss / real tot) 4,
                    py_round (real correct / real tot * 100) 3))"

text \<open>
  Lines 126--129. What is appended to each history list is the list itself
  (\<^verbatim>\<open>test_accuracys.append(test_accuracys)\<close>), not the value just computed.
\<close>

definition evaluate ::
  "('x, 'o, 'g) externals \<Rightarrow> 'x config \<Rightarrow> nat \<Rightarrow> ('o, 'g) state \<Rightarrow>
   error \<times> ('o, 'g) state + ('o, 'g) state" where
  "evaluate X cfg pruning_iter s =
     (let s1 = s\<lparr>calls := calls s @ [Test pruning_iter]\<rparr> in
      case test X (model s) (dataloader_test cfg) of
        Inl e \<Rightarrow> Inl (e, s1)
      | Inr (test_loss, test_accuracy) \<Rightarrow>
          Inr (s1\<lparr>test_accuracys := test_accuracys s1 @ [PyListRef TestAccuracys],
                  test_losses := test_losses s1 @ [PyListRef TestLosses]\<rparr>))"

section \<open>The pruning rounds (lines 34--133)\<close>

text \<open>Lines 34--41.\<close>

definition arch_schedule :: "string \<Rightarrow> error + nat \<times> nat list" where
  "arch_schedule arch =
     (if arch = ''vgg19'' then Inr (160, [80, 120])
      else if arch = ''resnet50'' then Inr (90, [50, 65, 80])
      else Inl (ValueError (arch @ '' architecture not supported'')))"

text \<open>The body of the loop over the rounds, lines 50--129.\<close>

definition pruning_iteration ::
  "('x, 'o, 'g) externals \<Rightarrow> 'x config \<Rightarrow> nat \<Rightarrow> nat list \<Rightarrow> nat \<Rightarrow> ('o, 'g) state \<Rightarrow>
   error \<times> ('o, 'g) state + ('o, 'g) state" where
  "pruning_iteration X cfg num_epochs lr_anneal_epochs pruning_iter s =
     (case new_optimizer X (optimizer_type cfg) (model s) of
        Inl e \<Rightarrow> Inl (e, s)
      | Inr opt \<Rightarrow>
          and_then
            (if pruning_iter \<noteq> 0
             then and_then (load_checkpoint pruning_iter (s\<lparr>optimizer := Some opt\<rparr>))
                    (build_masks X (random_arg cfg) pruning_iter)
             else Inr (s\<lparr>optimizer := Some opt\<rparr>))
            (\<lambda>s1. and_then
                    (if random_arg cfg = ''false'' then rewind X cfg pruning_iter s1 else Inr s1)
                    (\<lambda>s2. and_then
                            (run_epochs X cfg num_epochs lr_anneal_epochs pruning_iter
                               [1..<num_epochs + 1] s2)
                            (\<lambda>s3. if pruning_iter < 7 \<or> pruning_iter mod 3 = 0
                                  then evaluate X cfg pruning_iter s3
                                  else Inr s3))))"

fun run_rounds ::
  "('x, 'o, 'g) externals \<Rightarrow> 'x config \<Rightarrow> nat \<Rightarrow> nat list \<Rightarrow> nat list \<Rightarrow> ('o, 'g) state \<Rightarrow>
   error \<times> ('o, 'g) state + ('o, 'g) state" where
  "run_rounds X cfg num_epochs lr_anneal_epochs [] s = Inr s"
| "run_rounds X cfg num_epochs lr_anneal_epochs (pruning_iter # rest) s =
     and_then (pruning_iteration X cfg num_epochs lr_anneal_epochs pruning_iter s)
       (run_rounds X cfg num_epochs lr_anneal_epochs rest)"

text \<open>
  \<^verbatim>\<open>prune_iteratively\<close>, from the state its caller hands over: the model, the
  checkpoint directory and the random number generator.
\<close>

definition initial_state ::
  "named_parameters \<Rightarrow> (nat \<times> nat \<Rightarrow> 'o checkpoint option) \<Rightarrow> 'g \<Rightarrow> ('o, 'g) state" where
  "initial_state m fs g =
     \<lparr>model = m, optimizer = None, masks = None, last_epoch = None, files = fs, rng = g,
      test_accuracys = [], test_losses = [], calls = []\<rparr>"

definition prune_iteratively ::
  "('x, 'o, 'g) externals \<Rightarrow> 'x config \<Rightarrow> ('o, 'g) state \<Rightarrow>
   error \<times> ('o, 'g) state + ('o, 'g) state" where
  "prune_iteratively X cfg s =
     (case arch_schedule (architecture cfg) of
        Inl e \<Rightarrow> Inl (e, s)
      | Inr (num_epochs, lr_anneal_epochs) \<Rightarrow>
          run_rounds X cfg num_epochs lr_anneal_epochs [0..<31]
            (s\<lparr>test_accuracys := [], test_losses := []\<rparr>))"

section \<open>Observing the calls\<close>

text \<open>
  The calls of a run that are not part of training: rewinding and evaluation. \<open>test_rounds\<close>
  lists the rounds for which \<^verbatim>\<open>test\<close> was called, in order.
\<close>

definition training_event :: "event \<Rightarrow> bool" where
  "training_event e = (case e of LoadWeights _ \<Rightarrow> False | Test _ \<Rightarrow> False | _ \<Rightarrow> True)"

definition control_calls :: "event list \<Rightarrow> event list" where
  "control_calls cs = filter (\<lambda>e. \<not> training_event e) cs"

definition test_rounds :: "event list \<Rightarrow> nat list" where
  "test_rounds cs = concat (map (\<lambda>e. case e of Test i \<Rightarrow> [i] | _ \<Rightarrow> []) cs)"

section \<open>A small instance\<close>

text \<open>
  A model with one weight tensor and one bias, an optimizer step that moves every parameter by
  the learning rate, and a permuter that reverses each mask and counts its calls in the
  generator state.
\<close>

definition demo_model :: named_parameters where
  "demo_model = [(''fc.weight'', [1, -2, 3, -4]), (''fc.bias'', [5])]"

definition demo_externals :: "(unit, unit, nat) externals" where
  "demo_externals =
     \<lparr>get_weight_fractions = [0, 20, 36],
      permute_masks = (\<lambda>g ms. (map rev ms, Suc g)),
      load_weights = (\<lambda>m path eq. Inr demo_model),
      optim_init = (\<lambda>m. ()),
      train_step = (\<lambda>opt ps d. (map (\<lambda>p. (fst p, map (\<lambda>w. w - lr opt) (snd p))) ps, ())),
      forward = (\<lambda>m x. [[0, 1]]),
      criterion = (\<lambda>outs labs. 1 / 2)\<rparr>"

definition demo_config :: "unit config" where
  "demo_config =
     \<lparr>dataloader_train = [], dataloader_test = [((), [1])], architecture = ''resnet50'',
      optimizer_type = ''sgd'', init_path = ''init.pt'', random_arg = ''false'',
      is_equal_classes = True\<rparr>"

text \<open>\<open>rewind_rounds\<close> lists the rounds for which \<^verbatim>\<open>load_weights\<close> was called, in order.\<close>

definition rewind_rounds :: "event list \<Rightarrow> nat list" where
  "rewind_rounds cs = concat (map (\<lambda>e. case e of LoadWeights i \<Rightarrow> [i] | _ \<Rightarrow> []) cs)"

section \<open>Steps that succeed\<close>

lemma and_then_Inr: "and_then r f = Inr t \<longleftrightarrow> (\<exists>s. r = Inr s \<and> f s = Inr t)"
  by (cases r) (auto simp: and_then_def)

lemma and_then_simps [simp]: "and_then (Inr s) f = f s" "and_then (Inl e) f = Inl e"
  by (simp_all add: and_then_def)

lemma save_checkpoint_Inr:
  "save_checkpoint i e s = Inr s' \<longleftrightarrow>
   (\<exists>opt. optimizer s = Some opt \<and>
      s' = s\<lparr>files := (files s)((i, e) \<mapsto>
                    \<lparr>ck_epoch = e, model_state_dict = model s, optimizer_state_dict = opt\<rparr>),
             calls := calls s @ [SaveCheckpoint i e]\<rparr>)"
  by (cases "optimizer s") (auto simp: save_checkpoint_def)

lemma mask_model_Inr:
  "mask_model s = Inr s' \<longleftrightarrow>
   (\<exists>ms ps. masks s = Some ms \<and> apply_masks ms 0 (model s) = Inr ps \<and> s' = s\<lparr>model := ps\<rparr>)"
  by (cases "masks s"; cases "apply_masks (the (masks s)) 0 (model s)")
     (auto simp: mask_model_def)

lemma train_batch_Inr:
  "train_batch X i e b d s = Inr s' \<longleftrightarrow>
   (\<exists>opt s1. optimizer s = Some opt \<and> (if i \<noteq> 0 then mask_model s else Inr s) = Inr s1 \<and>
      s' = s1\<lparr>model := fst (train_step X opt (model s1) d),
              optimizer := Some (opt\<lparr>opt_state := snd (train_step X opt (model s1) d)\<rparr>),
              calls := calls s1 @ [TrainStep i e b]\<rparr>)"
  by (cases "optimizer s") (auto simp: train_batch_def and_then_Inr split_beta)

lemma load_checkpoint_Inr:
  "load_checkpoint i s = Inr s' \<longleftrightarrow>
   (\<exists>e cpt. last_epoch s = Some e \<and> files s (i - 1, e) = Some cpt \<and>
      shapes (model_state_dict cpt) = shapes (model s) \<and>
      s' = s\<lparr>calls := calls s @ [LoadCheckpoint (i - 1) e], model := model_state_dict cpt\<rparr>)"
  by (cases "last_epoch s"; cases "files s (i - 1, the (last_epoch s))")
     (auto simp: load_checkpoint_def load_state_dict_def Let_def)

lemma rewind_Inr:
  "rewind X cfg i s = Inr s' \<longleftrightarrow>
   (\<exists>ps. load_weights X (model s) (init_path cfg) (is_equal_classes cfg) = Inr ps \<and>
      s' = s\<lparr>calls := calls s @ [LoadWeights i], model := ps\<rparr>)"
  by (cases "load_weights X (model s) (init_path cfg) (is_equal_classes cfg)")
     (auto simp: rewind_def Let_def)

lemma evaluate_Inr:
  "evaluate X cfg i s = Inr s' \<longleftrightarrow>
   (\<exists>r. test X (model s) (dataloader_test cfg) = Inr r \<and>
      s' = s\<lparr>calls := calls s @ [Test i],
             test_accuracys := test_accuracys s @ [PyListRef TestAccuracys],
             test_losses := test_losses s @ [PyListRef TestLosses]\<rparr>)"
  by (cases "test X (model s) (dataloader_test cfg)")
     (auto simp: evaluate_def Let_def split_beta)

lemma build_masks_Inr:
  "build_masks X rnd i s = Inr s' \<longleftrightarrow>
   (\<exists>thr. i < length (get_weight_fractions X) \<and>
      np_percentile (map abs (flat_model_weights (model s) [])) (get_weight_fractions X ! i) = Inr thr \<and>
      fst (snd (snd (mask_loop X rnd thr (model s) ([], 0, 0, rng s)))) \<noteq> 0 \<and>
      s' = s\<lparr>masks := Some (fst (mask_loop X rnd thr (model s) ([], 0, 0, rng s))),
             rng := snd (snd (snd (mask_loop X rnd thr (model s) ([], 0, 0, rng s))))\<rparr>)"
  by (cases "np_percentile (map abs (flat_model_weights (model s) [])) (get_weight_fractions X ! i)")
     (auto simp: build_masks_def Let_def split_beta)


lemma control_calls_simps [simp]:
  "control_calls [] = []"
  "control_calls (cs @ ds) = control_calls cs @ control_calls ds"
  "control_calls [LoadCheckpoint i e] = []"
  "control_calls [TrainStep i e b] = []"
  "control_calls [SaveCheckpoint i e] = []"
  "control_calls [LoadWeights i] = [LoadWeights i]"
  "control_calls [Test i] = [Test i]"
  by (simp_all add: control_calls_def training_event_def)

lemma calls_mask_model: "mask_model s = Inr s' \<Longrightarrow> calls s' = calls s"
  by (auto simp: mask_model_Inr)

lemma calls_masked: "(if c then mask_model s else Inr s) = Inr s' \<Longrightarrow> calls s' = calls s"
  by (cases c) (auto dest: calls_mask_model)

lemma control_train_batch:
  "train_batch X i e b d s = Inr s' \<Longrightarrow> control_calls (calls s') = control_calls (calls s)"
  by (auto simp: train_batch_Inr dest: calls_masked)

lemma control_train_batches:
  "train_batches X i e bs s = Inr s' \<Longrightarrow> control_calls (calls s') = control_calls (calls s)"
proof (induction bs arbitrary: s)
  case Nil
  then show ?case by simp
next
  case (Cons b bs)
  obtain n d where b: "b = (n, d)" by (cases b)
  from Cons.prems obtain s1 where "train_batch X i e n d s = Inr s1"
    and "train_batches X i e bs s1 = Inr s'"
    by (auto simp: b and_then_Inr)
  then show ?case using Cons.IH [of s1] control_train_batch [of X i e n d s s1] by simp
qed

lemma control_save:
  "save_checkpoint i e s = Inr s' \<Longrightarrow> control_calls (calls s') = control_calls (calls s)"
  by (auto simp: save_checkpoint_Inr)

lemma control_run_epoch:
  assumes "run_epoch X cfg ne la i e s = Inr s'"
  shows "control_calls (calls s') = control_calls (calls s)"
proof -
  from assms obtain s1 where
    t: "train_batches X i e (enumerate 0 (dataloader_train cfg))
          (anneal e la (s\<lparr>last_epoch := Some e\<rparr>)) = Inr s1"
    and f: "(if e = ne then and_then (if i \<noteq> 0 then mask_model s1 else Inr s1)
                (save_checkpoint i e) else Inr s1) = Inr s'"
    by (auto simp: run_epoch_def and_then_Inr)
  have a: "calls (anneal e la (s\<lparr>last_epoch := Some e\<rparr>)) = calls s"
    by (simp add: anneal_def)
  from control_train_batches [OF t] a have c1: "control_calls (calls s1) = control_calls (calls s)"
    by simp
  show ?thesis
  proof (cases "e = ne")
    case True
    with f obtain s2 where "(if i \<noteq> 0 then mask_model s1 else Inr s1) = Inr s2"
      and "save_checkpoint i e s2 = Inr s'"
      by (auto simp: and_then_Inr)
    then show ?thesis using c1 calls_masked [of "i \<noteq> 0" s1 s2] control_save [of i e s2 s'] by simp
  next
    case False
    with f c1 show ?thesis by simp
  qed
qed

lemma control_run_epochs:
  "run_epochs X cfg ne la i es s = Inr s' \<Longrightarrow> control_calls (calls s') = control_calls (calls s)"
proof (induction es arbitrary: s)
  case Nil
  then show ?case by simp
next
  case (Cons e es)
  then obtain s1 where "run_epoch X cfg ne la i e s = Inr s1"
    and "run_epochs X cfg ne la i es s1 = Inr s'"
    by (auto simp: and_then_Inr)
  then show ?case using Cons.IH [of s1] control_run_epoch [of X cfg ne la i e s s1] by simp
qed

lemma control_load_checkpoint:
  "load_checkpoint i s = Inr s' \<Longrightarrow> control_calls (calls s') = control_calls (calls s)"
  by (auto simp: load_checkpoint_Inr)

lemma calls_build_masks: "build_masks X r i s = Inr s' \<Longrightarrow> calls s' = calls s"
  by (auto simp: build_masks_Inr)

lemma control_rewind:
  "rewind X cfg i s = Inr s' \<Longrightarrow> control_calls (calls s') = control_calls (calls s) @ [LoadWeights i]"
  by (auto simp: rewind_Inr)

lemma control_evaluate:
  "evaluate X cfg i s = Inr s' \<Longrightarrow> control_calls (calls s') = control_calls (calls s) @ [Test i]"
  by (auto simp: evaluate_Inr)

text \<open>The stages of one round.\<close>

lemma pruning_iteration_Inr:
  "pruning_iteration X cfg ne la i s = Inr s' \<longleftrightarrow>
   (\<exists>opt s1 s2 s3.
      new_optimizer X (optimizer_type cfg) (model s) = Inr opt \<and>
      (if i \<noteq> 0 then and_then (load_checkpoint i (s\<lparr>optimizer := Some opt\<rparr>))
                       (build_masks X (random_arg cfg) i)
       else Inr (s\<lparr>optimizer := Some opt\<rparr>)) = Inr s1 \<and>
      (if random_arg cfg = ''false'' then rewind X cfg i s1 else Inr s1) = Inr s2 \<and>
      run_epochs X cfg ne la i [1..<ne + 1] s2 = Inr s3 \<and>
      (if i < 7 \<or> i mod 3 = 0 then evaluate X cfg i s3 else Inr s3) = Inr s')"
  by (cases "new_optimizer X (optimizer_type cfg) (model s)")
     (simp_all add: pruning_iteration_def and_then_Inr)

lemma control_pruning_iteration:
  assumes "pruning_iteration X cfg ne la i s = Inr s'"
  shows "control_calls (calls s') = control_calls (calls s)
           @ (if random_arg cfg = ''false'' then [LoadWeights i] else [])
           @ (if i < 7 \<or> i mod 3 = 0 then [Test i] else [])"
proof -
  from assms obtain opt s1 s2 s3 where
    s1: "(if i \<noteq> 0 then and_then (load_checkpoint i (s\<lparr>optimizer := Some opt\<rparr>))
                    (build_masks X (random_arg cfg) i) else Inr (s\<lparr>optimizer := Some opt\<rparr>)) = Inr s1"
    and s2: "(if random_arg cfg = ''false'' then rewind X cfg i s1 else Inr s1) = Inr s2"
    and s3: "run_epochs X cfg ne la i [1..<ne + 1] s2 = Inr s3"
    and s4: "(if i < 7 \<or> i mod 3 = 0 then evaluate X cfg i s3 else Inr s3) = Inr s'"
    unfolding pruning_iteration_Inr by blast
  have c1: "control_calls (calls s1) = control_calls (calls s)"
  proof (cases "i = 0")
    case True
    with s1 show ?thesis by auto
  next
    case False
    with s1 obtain t where "load_checkpoint i (s\<lparr>optimizer := Some opt\<rparr>) = Inr t"
      and "build_masks X (random_arg cfg) i t = Inr s1"
      by (auto simp: and_then_Inr)
    then show ?thesis
      using control_load_checkpoint [of i "s\<lparr>optimizer := Some opt\<rparr>" t]
        calls_build_masks [of X "random_arg cfg" i t s1] by simp
  qed
  have c2: "control_calls (calls s2) = control_calls (calls s1)
      @ (if random_arg cfg = ''false'' then [LoadWeights i] else [])"
    using s2 control_rewind [of X cfg i s1 s2] by (cases "random_arg cfg = ''false''") auto
  from s3 have c3: "control_calls (calls s3) = control_calls (calls s2)"
    by (rule control_run_epochs)
  have c4: "control_calls (calls s') = control_calls (calls s3)
      @ (if i < 7 \<or> i mod 3 = 0 then [Test i] else [])"
    using s4 control_evaluate [of X cfg i s3 s'] by (cases "i < 7 \<or> i mod 3 = 0") auto
  show ?thesis using c1 c2 c3 c4 by simp
qed

lemma control_run_rounds:
  "run_rounds X cfg ne la rs s = Inr s' \<Longrightarrow>
   control_calls (calls s') = control_calls (calls s)
     @ concat (map (\<lambda>i. (if random_arg cfg = ''false'' then [LoadWeights i] else [])
           @ (if i < 7 \<or> i mod 3 = 0 then [Test i] else [])) rs)"
proof (induction rs arbitrary: s)
  case Nil
  then show ?case by simp
next
  case (Cons r rs)
  then obtain s1 where a: "pruning_iteration X cfg ne la r s = Inr s1"
    and b: "run_rounds X cfg ne la rs s1 = Inr s'"
    by (auto simp: and_then_Inr)
  show ?case using control_pruning_iteration[OF a] Cons.IH[OF b] by simp
qed

section \<open>Properties of the mask builder\<close>

lemma flat_model_weights_concat:
  "flat_model_weights ps flat = flat @ concat (map snd (filter (\<lambda>p. is_weight (fst p)) ps))"
  by (induction ps flat rule: flat_model_weights.induct) auto

section \<open>Which rounds are evaluated\<close>

lemma test_rounds_simps [simp]:
  "test_rounds [] = []"
  "test_rounds (cs @ ds) = test_rounds cs @ test_rounds ds"
  "test_rounds [Test i] = [i]"
  "test_rounds [LoadWeights i] = []"
  by (simp_all add: test_rounds_def)

lemma test_rounds_control: "test_rounds (control_calls cs) = test_rounds cs"
  by (induction cs) (auto simp: test_rounds_def control_calls_def training_event_def split: event.splits)

text \<open>
  Claim C9. A round that completes has called \<^verbatim>\<open>test\<close> once, for its own index, when
  that index is at most 6 or a multiple of 3, and has not called it otherwise.
\<close>

theorem evaluation_rounds:
  assumes "pruning_iteration X cfg num_epochs lr_anneal_epochs i s = Inr s'"
  shows "test_rounds (calls s') =
         test_rounds (calls s) @ (if i \<le> 6 \<or> 3 dvd i then [i] else [])"
proof -
  have c: "(i < 7 \<or> i mod 3 = 0) = (i \<le> 6 \<or> 3 dvd i)"
    by presburger
  have "test_rounds (calls s') = test_rounds (control_calls (calls s'))"
    by (simp only: test_rounds_control)
  also have "\<dots> = test_rounds (control_calls (calls s)
           @ (if random_arg cfg = ''false'' then [LoadWeights i] else [])
           @ (if i < 7 \<or> i mod 3 = 0 then [Test i] else []))"
    by (simp only: control_pruning_iteration [OF assms])
  also have "\<dots> = test_rounds (calls s) @ (if i \<le> 6 \<or> 3 dvd i then [i] else [])"
    by (simp add: c test_rounds_control)
  finally show ?thesis .
qed

lemmas demo_defs = pruning_iteration_def new_optimizer_def demo_externals_def demo_config_def
  initial_state_def rewind_def run_epoch_def anneal_def save_checkpoint_def evaluate_def test_def
  demo_model_def py_round_def count_correct_def upt_conv_Cons enumerate_eq_zip

lemma demo_round0:
  "\<exists>s'. pruning_iteration demo_externals demo_config 90 [50, 65, 80] 0
     (initial_state demo_model Map.empty 0) = Inr s'"
  by (simp add: demo_defs)

theorem evaluation_rounds_witness:
  "\<exists>s'. pruning_iteration demo_externals demo_config 90 [50, 65, 80] 0
          (initial_state demo_model Map.empty 0) = Inr s' \<and>
        test_rounds (calls s') = [0]"
proof -
  from demo_round0 obtain s' where
    r: "pruning_iteration demo_externals demo_config 90 [50, 65, 80] 0
          (initial_state demo_model Map.empty 0) = Inr s'" ..
  from evaluation_rounds [OF r] have "test_rounds (calls s') = [0]"
    by (simp add: initial_state_def)
  with r show ?thesis by blast
qed

section \<open>Which rounds rewind\<close>

lemma rewind_rounds_simps [simp]:
  "rewind_rounds [] = []"
  "rewind_rounds (cs @ ds) = rewind_rounds cs @ rewind_rounds ds"
  "rewind_rounds [Test i] = []"
  "rewind_rounds [LoadWeights i] = [i]"
  by (simp_all add: rewind_rounds_def)

lemma rewind_rounds_control: "rewind_rounds (control_calls cs) = rewind_rounds cs"
  by (induction cs) (auto simp: rewind_rounds_def control_calls_def training_event_def split: event.splits)

text \<open>
  Claim C6. A round that completes has called \<^verbatim>\<open>load_weights\<close> once when the
  argument \<^verbatim>\<open>random\<close> is the string \<^verbatim>\<open>false\<close>, and not at all in random-ticket
  mode (any other value of the argument, line 79).
\<close>

theorem weight_reset_iff_not_random:
  assumes "pruning_iteration X cfg num_epochs lr_anneal_epochs i s = Inr s'"
  shows "rewind_rounds (calls s') =
         rewind_rounds (calls s) @ (if random_arg cfg = ''false'' then [i] else [])"
proof -
  have "rewind_rounds (calls s') = rewind_rounds (control_calls (calls s'))"
    by (simp only: rewind_rounds_control)
  also have "\<dots> = rewind_rounds (control_calls (calls s)
           @ (if random_arg cfg = ''false'' then [LoadWeights i] else [])
           @ (if i < 7 \<or> i mod 3 = 0 then [Test i] else []))"
    by (simp only: control_pruning_iteration [OF assms])
  also have "\<dots> = rewind_rounds (calls s) @ (if random_arg cfg = ''false'' then [i] else [])"
    by (simp add: rewind_rounds_control)
  finally show ?thesis .
qed

lemma demo_round0_random:
  "\<exists>s'. pruning_iteration demo_externals (demo_config\<lparr>random_arg := ''true''\<rparr>) 90 [50, 65, 80] 0
     (initial_state demo_model Map.empty 0) = Inr s'"
  by (simp add: demo_defs)

theorem weight_reset_iff_not_random_witness:
  "(\<exists>s'. pruning_iteration demo_externals demo_config 90 [50, 65, 80] 0
          (initial_state demo_model Map.empty 0) = Inr s' \<and>
        rewind_rounds (calls s') = [0]) \<and>
   (\<exists>s'. pruning_iteration demo_externals (demo_config\<lparr>random_arg := ''true''\<rparr>) 90 [50, 65, 80] 0
          (initial_state demo_model Map.empty 0) = Inr s' \<and>
        rewind_rounds (calls s') = [])"
proof -
  from demo_round0 obtain s1 where
    r1: "pruning_iteration demo_externals demo_config 90 [50, 65, 80] 0
          (initial_state demo_model Map.empty 0) = Inr s1" ..
  from demo_round0_random obtain s2 where
    r2: "pruning_iteration demo_externals (demo_config\<lparr>random_arg := ''true''\<rparr>) 90 [50, 65, 80] 0
          (initial_state demo_model Map.empty 0) = Inr s2" ..
  from weight_reset_iff_not_random [OF r1] have "rewind_rounds (calls s1) = [0]"
    by (simp add: initial_state_def demo_config_def)
  moreover from weight_reset_iff_not_random [OF r2] have "rewind_rounds (calls s2) = []"
    by (simp add: initial_state_def demo_config_def)
  ultimately show ?thesis using r1 r2 by blast
qed

section \<open>Unsupported names\<close>

text \<open>
  Claim C7. With an architecture other than \<^verbatim>\<open>vgg19\<close> and \<^verbatim>\<open>resnet50\<close>, or an
  optimizer other than \<^verbatim>\<open>sgd\<close> and \<^verbatim>\<open>adam\<close>, the run raises \<^verbatim>\<open>ValueError\<close>
  before any call: no checkpoint is read or written, no training step is made, and the model is
  as it was.
\<close>

theorem unsupported_names_fail_fast:
  assumes "architecture cfg \<notin> {''vgg19'', ''resnet50''} \<or> optimizer_type cfg \<notin> {''sgd'', ''adam''}"
  shows "\<exists>msg s'. prune_iteratively X cfg s = Inl (ValueError msg, s') \<and>
           calls s' = calls s \<and> model s' = model s \<and> files s' = files s \<and>
           last_epoch s' = last_epoch s"
proof (cases "architecture cfg \<notin> {''vgg19'', ''resnet50''}")
  case True
  then show ?thesis
    by (simp add: prune_iteratively_def arch_schedule_def)
next
  case False
  with assms have o: "optimizer_type cfg \<noteq> ''sgd''" "optimizer_type cfg \<noteq> ''adam''"
    by auto
  have n: "new_optimizer X (optimizer_type cfg) m =
             Inl (ValueError (optimizer_type cfg @ '' optimizer not supported''))" for m
    using o by (simp add: new_optimizer_def)
  have u: "[0..<31] = 0 # [1..<31]"
    by (simp add: upt_conv_Cons)
  obtain ne la where a: "arch_schedule (architecture cfg) = Inr (ne, la)"
    using False by (auto simp: arch_schedule_def)
  show ?thesis
    by (simp add: prune_iteratively_def a u pruning_iteration_def n)
qed

theorem unsupported_names_fail_fast_witness:
  "(\<exists>msg s'. prune_iteratively demo_externals (demo_config\<lparr>architecture := ''alexnet''\<rparr>)
        (initial_state demo_model Map.empty 0) = Inl (ValueError msg, s') \<and> calls s' = []) \<and>
   (\<exists>msg s'. prune_iteratively demo_externals (demo_config\<lparr>optimizer_type := ''rmsprop''\<rparr>)
        (initial_state demo_model Map.empty 0) = Inl (ValueError msg, s') \<and> calls s' = [])"
  using unsupported_names_fail_fast [of "demo_config\<lparr>architecture := ''alexnet''\<rparr>" demo_externals
      "initial_state demo_model Map.empty 0"]
    unsupported_names_fail_fast [of "demo_config\<lparr>optimizer_type := ''rmsprop''\<rparr>" demo_externals
      "initial_state demo_model Map.empty 0"]
  by (simp add: demo_config_def initial_state_def) blast

section \<open>The history lists\<close>

lemma evaluate_history:
  "evaluate X cfg i s = Inr s' \<Longrightarrow>
   test_accuracys s' = test_accuracys s @ [PyListRef TestAccuracys] \<and>
   test_losses s' = test_losses s @ [PyListRef TestLosses]"
  by (auto simp: evaluate_Inr)

lemma demo_test:
  "test demo_externals demo_model (dataloader_test demo_config) = Inr (1 / 2, 100)"
  by (simp add: test_def demo_externals_def demo_config_def py_round_def count_correct_def)

text \<open>
  Claim C5. The code appends to each history list a reference to the list itself, not the
  value just computed: after round 0 of the small instance, whose evaluation gives loss
  \<open>1 / 2\<close> and accuracy \<open>100\<close>, neither list holds a float.
\<close>

theorem history_holds_no_scalar:
  "\<exists>s'. pruning_iteration demo_externals demo_config 90 [50, 65, 80] 0
          (initial_state demo_model Map.empty 0) = Inr s' \<and>
        test demo_externals (model s') (dataloader_test demo_config) = Inr (1 / 2, 100) \<and>
        test_accuracys s' = [PyListRef TestAccuracys] \<and>
        test_losses s' = [PyListRef TestLosses] \<and>
        test_accuracys s' \<noteq> [PyFloat 100] \<and> test_losses s' \<noteq> [PyFloat (1 / 2)]"
  by (simp add: demo_defs demo_test [unfolded demo_model_def demo_externals_def demo_config_def])

end
